theory Spec2Isabelle
  imports Complex_Main "HOL-Library.AList"
begin

section \<open>Shared model: errors, arrays, domains\<close>

text \<open>
  Numbers are modelled as reals (exact arithmetic). A float array that may hold NaN is a
  list of \<open>real option\<close>, with \<open>None\<close> for NaN. An undefined calibration boundary is
  Python's \<open>None\<close>, \<open>None\<close> here as well: an array built from boundaries with a
  \<open>None\<close> among them has dtype object, and a \<open>None\<close> assigned into a float array
  becomes NaN. Every exception of the source is a value of \<open>error\<close>.
\<close>

datatype error =
  DreyeError | AssertionError | AttributeError | TypeError | ValueError | IndexError

definition bindE :: "error + 'a \<Rightarrow> ('a \<Rightarrow> error + 'b) \<Rightarrow> error + 'b" where
  "bindE m f = (case m of Inl e \<Rightarrow> Inl e | Inr x \<Rightarrow> f x)"

text \<open>
  An array of rank 0, 1 or 2 (a rank-2 array is a list of rows). Units are opaque names,
  with products and quotients; converting between units is the quantity layer's.
\<close>

datatype ndarray = A0 real | A1 "real list" | A2 "real list list"

fun ndim :: "ndarray \<Rightarrow> nat" where
  "ndim (A0 _) = 0"
| "ndim (A1 _) = 1"
| "ndim (A2 _) = 2"

fun atleast_2d :: "ndarray \<Rightarrow> real list list" where
  "atleast_2d (A0 v) = [[v]]"
| "atleast_2d (A1 vs) = [vs]"
| "atleast_2d (A2 rows) = rows"

text \<open>\<open>np.min\<close> and \<open>np.max\<close> of a rank-1 array; both raise on an empty array.\<close>

definition np_min :: "real list \<Rightarrow> error + real" where
  "np_min xs = (case xs of [] \<Rightarrow> Inl ValueError | x # r \<Rightarrow> Inr (fold min r x))"

definition np_max :: "real list \<Rightarrow> error + real" where
  "np_max xs = (case xs of [] \<Rightarrow> Inl ValueError | x # r \<Rightarrow> Inr (fold max r x))"

text \<open>
  An elementwise operation on two rank-1 arrays under numpy broadcasting: equal lengths,
  or one of them of length 1; any other pair of lengths raises.
\<close>

definition bcast2 :: "(real \<Rightarrow> real \<Rightarrow> real) \<Rightarrow> real list \<Rightarrow> real list \<Rightarrow> error + real list" where
  "bcast2 f a b =
     (if length a = length b then Inr (map (\<lambda>(x, y). f x y) (zip a b))
      else if length a = 1 then Inr (map (f (hd a)) b)
      else if length b = 1 then Inr (map (\<lambda>x. f x (hd b)) a)
      else Inl ValueError)"

fun sequenceE :: "(error + 'a) list \<Rightarrow> error + 'a list" where
  "sequenceE [] = Inr []"
| "sequenceE (m # ms) =
     bindE m (\<lambda>x. bindE (sequenceE ms) (\<lambda>xs. Inr (x # xs)))"

definition ncols :: "real list list \<Rightarrow> nat" where
  "ncols rows = (case rows of [] \<Rightarrow> 0 | r # _ \<Rightarrow> length r)"

definition column :: "nat \<Rightarrow> real list list \<Rightarrow> real list" where
  "column j rows = map (\<lambda>r. r ! j) rows"

fun shape :: "ndarray \<Rightarrow> nat list" where
  "shape (A0 _) = []"
| "shape (A1 xs) = [length xs]"
| "shape (A2 rows) = [length rows, ncols rows]"

fun map_nd :: "(real \<Rightarrow> real) \<Rightarrow> ndarray \<Rightarrow> ndarray" where
  "map_nd f (A0 v) = A0 (f v)"
| "map_nd f (A1 xs) = A1 (map f xs)"
| "map_nd f (A2 rows) = A2 (map (map f) rows)"

text \<open>
  Modelled from the spec: the \<open>Domain\<close> class is not part of the sources. It is an
  ordered coordinate axis with a magnitude array, units and start/end scalars (its first
  and last coordinate).
\<close>

datatype punit = UName string | UMul punit punit | UDiv punit punit

record domain =
  dmagnitude :: "real list"
  dunits :: punit

definition dstart :: "domain \<Rightarrow> real" where
  "dstart d = hd (dmagnitude d)"

definition dend :: "domain \<Rightarrow> real" where
  "dend d = last (dmagnitude d)"

section \<open>MeasuredSpectraContainer\<close>

text \<open>
  One channel of the container: the control-input axis \<open>labels\<close>, the integrated
  intensity at each control input (\<open>intensities_list[idx].magnitude\<close>) and the
  calibration attributes \<open>zero_is_lower\<close>, \<open>zero_boundary\<close>, \<open>max_boundary\<close>.
\<close>

record measured_spectrum =
  ms_name :: string
  labels :: domain
  intensity :: "real list"
  zero_is_lower :: bool
  zero_boundary :: "real option"
  max_boundary :: "real option"

type_synonym container = "measured_spectrum list"

definition starts :: "container \<Rightarrow> real list" where
  "starts c = map (\<lambda>ele. dstart (labels ele)) c"

definition ends :: "container \<Rightarrow> real list" where
  "ends c = map (\<lambda>ele. dend (labels ele)) c"

text \<open>\<open>a[mask] = b[mask]\<close> for arrays of one length.\<close>

definition mask_assign :: "'a list \<Rightarrow> bool list \<Rightarrow> 'a list \<Rightarrow> 'a list" where
  "mask_assign a msk b = map (\<lambda>(x, m, y). if m then y else x) (zip a (zip msk b))"

text \<open>\<open>a[np.isnan(a)] = b[np.isnan(a)]\<close>, the result being free of NaN.\<close>

definition nan_assign :: "real option list \<Rightarrow> real list \<Rightarrow> real list" where
  "nan_assign a b = map (\<lambda>(x, y). case x of None \<Rightarrow> y | Some v \<Rightarrow> v) (zip a b)"

definition lower_boundary :: "container \<Rightarrow> real list" where
  "lower_boundary c =
     (let zil = map zero_is_lower c;
          lb0 = replicate (length zil) (Some 0);
          lb1 = mask_assign lb0 zil (map zero_boundary c);
          lb2 = mask_assign lb1 (map Not zil) (map max_boundary c)
      in nan_assign lb2 (starts c))"

definition upper_boundary :: "container \<Rightarrow> real list" where
  "upper_boundary c =
     (let zil = map zero_is_lower c;
          ub0 = replicate (length zil) (Some 0);
          ub1 = mask_assign ub0 (map Not zil) (map zero_boundary c);
          ub2 = mask_assign ub1 zil (map max_boundary c)
      in nan_assign ub2 (ends c))"

definition domain_bounds :: "container \<Rightarrow> (real \<times> real) list" where
  "domain_bounds c = zip (lower_boundary c) (upper_boundary c)"

text \<open>
  \<open>np.isnan\<close> of the container's array of zero boundaries. The array is built from
  the channels' zero boundaries as they are, so with an undefined one among them it has
  dtype object and \<open>np.isnan\<close> raises TypeError; an array of numbers holds no NaN.
\<close>

definition isnan_zero_boundary :: "container \<Rightarrow> error + bool list" where
  "isnan_zero_boundary c =
     (if list_ex (\<lambda>ele. zero_boundary ele = None) c then Inl TypeError
      else Inr (map (\<lambda>ele. False) c))"

text \<open>
  \<open>bounds\<close>: per channel the least and greatest integrated intensity, the lower one
  set to 0 where the zero boundary is not NaN. The assignment indexes the array of
  bounds with a mask and a column, which raises IndexError when the container is empty
  and the array has rank 1.
\<close>

definition bounds :: "container \<Rightarrow> error + (real list \<times> real list)" where
  "bounds c =
     bindE (sequenceE (map (\<lambda>ele.
              bindE (np_min (intensity ele)) (\<lambda>lo.
              bindE (np_max (intensity ele)) (\<lambda>hi. Inr (lo, hi)))) c)) (\<lambda>b.
     bindE (isnan_zero_boundary c) (\<lambda>nan.
       if b = [] then Inl IndexError
       else Inr (map (\<lambda>((lo, hi), n). if \<not> n then 0 else lo) (zip b nan),
                 map (\<lambda>(lo, hi). hi) b)))"

text \<open>
  The first part of \<open>_get_single_mapper\<close>: the sample pair (zero boundary, 0) is added
  to the control inputs \<open>x\<close> and intensities \<open>y\<close>. The third branch calls
  \<open>np.concateante\<close>, a name numpy does not have, which raises AttributeError.
\<close>

definition splice_zero ::
  "real option \<Rightarrow> bool \<Rightarrow> real list \<Rightarrow> real list \<Rightarrow> error + (real list \<times> real list)" where
  "splice_zero zb zil x y =
     (case zb of
        None \<Rightarrow> Inr (x, y)
      | Some z \<Rightarrow>
          if zil then
            bindE (np_min x) (\<lambda>mn.
              if z < mn then Inr ([z] @ x, [0] @ y) else Inr (x, y))
          else
            bindE (np_max x) (\<lambda>mx.
              if z > mx then Inl AttributeError else Inr (x, y)))"

text \<open>
  The isotonic regression and the inverse interpolant are library capabilities, taken as
  parameters: \<open>isofit y_min y_max increasing x y\<close> is \<open>fit_transform\<close>, and
  \<open>itp new_y x fill\<close> is the interpolant, applied to one value.
\<close>

type_synonym isoreg = "real \<Rightarrow> real \<Rightarrow> bool \<Rightarrow> real list \<Rightarrow> real list \<Rightarrow> real list"
type_synonym interp1d = "real list \<Rightarrow> real list \<Rightarrow> real \<times> real \<Rightarrow> real \<Rightarrow> real"

definition get_single_mapper ::
  "isoreg \<Rightarrow> interp1d \<Rightarrow> container \<Rightarrow> nat \<Rightarrow> measured_spectrum \<Rightarrow> error + (real \<Rightarrow> real)" where
  "get_single_mapper isofit itp c idx ele =
     (let y = intensity (c ! idx);
          x = dmagnitude (labels (c ! idx))
      in bindE (splice_zero (zero_boundary ele) (zero_is_lower ele) x y) (\<lambda>(x', y').
         bindE (bounds c) (\<lambda>(lo, hi).
           let new_y = isofit (lo ! idx) (hi ! idx) (zero_is_lower ele) x' y'
           in Inr (itp new_y x' (domain_bounds c ! idx)))))"

definition mapper_func ::
  "isoreg \<Rightarrow> interp1d \<Rightarrow> container \<Rightarrow> real list list \<Rightarrow> error + real list list" where
  "mapper_func isofit itp c x =
     bindE (sequenceE (map (\<lambda>(idx, ele). get_single_mapper isofit itp c idx ele)
                           (zip [0 ..< length c] c))) (\<lambda>mappers.
       if ncols x > length mappers then Inl IndexError
       else Inr (map (\<lambda>row. map (\<lambda>(f, v). f v) (zip mappers row)) x))"

text \<open>
  Comparison of a rank-2 array with a \<open>(1, n)\<close> array under numpy broadcasting, reduced
  by \<open>np.all\<close>.
\<close>

definition row_all :: "(real \<Rightarrow> real \<Rightarrow> bool) \<Rightarrow> real list \<Rightarrow> real list \<Rightarrow> error + bool" where
  "row_all P r b =
     (if length r = length b then Inr (list_all2 P r b)
      else if length r = 1 then Inr (list_all (P (hd r)) b)
      else if length b = 1 then Inr (list_all (\<lambda>v. P v (hd b)) r)
      else Inl ValueError)"

definition bcast_all ::
  "(real \<Rightarrow> real \<Rightarrow> bool) \<Rightarrow> real list list \<Rightarrow> real list \<Rightarrow> error + bool" where
  "bcast_all P rows b = bindE (sequenceE (map (\<lambda>r. row_all P r b) rows)) (\<lambda>ts. Inr (list_all id ts))"

definition pre_mapping :: "container \<Rightarrow> ndarray \<Rightarrow> error + ndarray" where
  "pre_mapping c vals =
     bindE (bounds c) (\<lambda>(mn, mx).
     bindE (bcast_all (\<lambda>v b. v \<ge> b) (atleast_2d vals) mn) (\<lambda>t1.
     bindE (bcast_all (\<lambda>v b. v \<le> b) (atleast_2d vals) mx) (\<lambda>t2.
       if t1 \<and> t2 then Inr vals else Inl AssertionError)))"

definition label_units :: "container \<Rightarrow> error + punit" where
  "label_units c =
     (let us = map (\<lambda>ele. dunits (labels ele)) c
      in if card (set us) > 1 then Inl DreyeError
         else (case us of [] \<Rightarrow> Inl IndexError | u # _ \<Rightarrow> Inr u))"

definition clip_row :: "real list \<Rightarrow> real list \<Rightarrow> real list \<Rightarrow> error + real list" where
  "clip_row r lo hi = bindE (bcast2 max r lo) (\<lambda>m. bcast2 min m hi)"

definition post_mapping ::
  "container \<Rightarrow> real list list \<Rightarrow> bool \<Rightarrow> error + (real list list \<times> punit option)" where
  "post_mapping c x units =
     bindE (if units then bindE (label_units c) (\<lambda>u. Inr (Some u)) else Inr None) (\<lambda>u.
     bindE (sequenceE (map (\<lambda>r. clip_row r (lower_boundary c) (upper_boundary c)) x)) (\<lambda>rows.
       Inr (rows, u)))"

text \<open>
  \<open>map\<close>. The conversion of \<open>values\<close> to intensity units is the quantity layer's; the
  values here are magnitudes in those units.
\<close>

definition map_values ::
  "isoreg \<Rightarrow> interp1d \<Rightarrow> container \<Rightarrow> ndarray \<Rightarrow> bool
     \<Rightarrow> error + (real list list \<times> punit option)" where
  "map_values isofit itp c vals units =
     bindE (pre_mapping c vals) (\<lambda>vals'.
     bindE (mapper_func isofit itp c (atleast_2d vals')) (\<lambda>x.
       post_mapping c (if ndim vals' = 1 then [x ! 0] else x) units))"

section \<open>Signal\<close>

text \<open>
  The coordinates handed to a signal (\<open>asarray(domain)\<close>): one number or a rank-1 array.
\<close>

datatype coords = Scalar real | Coords "real list"

fun coords_list :: "coords \<Rightarrow> real list" where
  "coords_list (Scalar v) = [v]"
| "coords_list (Coords xs) = xs"

datatype query = QDomain domain | QRaw coords

text \<open>
  The quantity layer: \<open>conv u v\<close> is the conversion from unit \<open>u\<close> to unit \<open>v\<close>, which
  fails for incompatible units; a conversion between equal units changes nothing.
\<close>

type_synonym conversion = "punit \<Rightarrow> punit \<Rightarrow> error + (real \<Rightarrow> real)"

definition to_units :: "conversion \<Rightarrow> punit \<Rightarrow> punit \<Rightarrow> error + (real \<Rightarrow> real)" where
  "to_units conv u v = (if u = v then Inr (\<lambda>x. x) else conv u v)"

text \<open>Clip bounds after \<open>get_values\<close>: absent, one number, or one number per channel.\<close>

datatype clip_bound = NoBound | ScalarBound real | ListBound "real list"

fun clip_one :: "(real \<Rightarrow> real \<Rightarrow> real) \<Rightarrow> ndarray \<Rightarrow> clip_bound \<Rightarrow> error + ndarray" where
  "clip_one f a NoBound = Inr a"
| "clip_one f a (ScalarBound b) = Inr (map_nd (\<lambda>v. f v b) a)"
| "clip_one f (A0 v) (ListBound bs) = Inr (A1 (map (f v) bs))"
| "clip_one f (A1 xs) (ListBound bs) = bindE (bcast2 f xs bs) (\<lambda>r. Inr (A1 r))"
| "clip_one f (A2 rows) (ListBound bs) =
     bindE (sequenceE (map (\<lambda>r. bcast2 f r bs) rows)) (\<lambda>rs. Inr (A2 rs))"

definition clip_values :: "ndarray \<Rightarrow> clip_bound \<Rightarrow> clip_bound \<Rightarrow> error + ndarray" where
  "clip_values vals a_min a_max =
     (if a_min = NoBound \<and> a_max = NoBound then Inr vals
      else bindE (clip_one max vals a_min) (\<lambda>v. clip_one min v a_max))"

datatype pyval = PInt int | PReal real | PStr string | PBool bool

type_synonym kwargs = "(string \<times> pyval) list"
type_synonym interpolant = "coords \<Rightarrow> error + ndarray"
type_synonym interpolator = "real list \<Rightarrow> ndarray \<Rightarrow> kwargs \<Rightarrow> error + interpolant"
type_synonym dtype = "ndarray \<Rightarrow> error + ndarray"

datatype label_axis = LNone | LNames "string list" | LNumbers "real list" | LDomain domain

text \<open>
  The attributes of a Signal. \<open>interpolate_cache\<close> is \<open>_interpolate\<close>, the cached
  interpolant (\<open>None\<close> until built); \<open>sclass\<close> is the concrete class.
\<close>

record signal =
  sclass :: string
  svalues :: ndarray
  sunits :: punit
  sdomain :: domain
  sdtype :: "dtype option"
  domain_axis :: nat
  slabels :: label_axis
  interpolator :: interpolator
  interpolator_kwargs :: kwargs
  domain_min :: "(real \<times> punit) option"
  domain_max :: "(real \<times> punit) option"
  signal_min :: clip_bound
  signal_max :: clip_bound
  interpolate_cache :: "interpolant option"

text \<open>
  A setter takes the receiver and returns the exception raised, if any, with the receiver
  as the setter leaves it.
\<close>

datatype dtype_arg = DtNone | DtStr string | DtCallable dtype | DtOther

text \<open>
  The dtype setter. \<open>np_dtype\<close> resolves a dtype name (\<open>np.dtype(value).type\<close>) and
  \<open>dom_set\<close> is the Domain's own dtype setter; both belong to collaborators and are
  parameters. A \<open>None\<close> dtype is stored and then called, which raises TypeError.
\<close>

definition set_dtype ::
  "(string \<Rightarrow> error + dtype) \<Rightarrow> (domain \<Rightarrow> dtype option \<Rightarrow> error + domain)
     \<Rightarrow> signal \<Rightarrow> dtype_arg \<Rightarrow> error option \<times> signal" where
  "set_dtype np_dtype dom_set s arg =
     (let resolved =
            (case arg of
               DtNone \<Rightarrow> Inr None
             | DtStr nm \<Rightarrow> bindE (np_dtype nm) (\<lambda>f. Inr (Some f))
             | DtCallable f \<Rightarrow> Inr (Some f)
             | DtOther \<Rightarrow> Inl AttributeError)
      in case resolved of
           Inl e \<Rightarrow> (Some e, s)
         | Inr v \<Rightarrow>
             (let s1 = s\<lparr>sdtype := v\<rparr>
              in case dom_set (sdomain s1) v of
                   Inl e \<Rightarrow> (Some e, s1)
                 | Inr d \<Rightarrow>
                     (let s2 = s1\<lparr>sdomain := d\<rparr>
                      in case v of
                           None \<Rightarrow> (Some TypeError, s2)
                         | Some f \<Rightarrow>
                             (case f (svalues s2) of
                                Inl e \<Rightarrow> (Some e, s2)
                              | Inr a \<Rightarrow> (None, s2\<lparr>svalues := a\<rparr>)))))"

text \<open>The values setter; the new array may carry units.\<close>

definition set_values ::
  "conversion \<Rightarrow> signal \<Rightarrow> ndarray \<times> punit option \<Rightarrow> error option \<times> signal" where
  "set_values conv s arg =
     (case (case snd arg of
              None \<Rightarrow> Inr (fst arg)
            | Some u \<Rightarrow> bindE (to_units conv u (sunits s)) (\<lambda>f. Inr (map_nd f (fst arg)))) of
        Inl e \<Rightarrow> (Some e, s)
      | Inr v \<Rightarrow>
          if shape v \<noteq> shape (svalues s) then (Some DreyeError, s)
          else (None, s\<lparr>svalues := v\<rparr>))"

datatype 'a setter_arg = ArgNone | ArgValue 'a | ArgOther

definition set_interpolator :: "signal \<Rightarrow> interpolator setter_arg \<Rightarrow> error option \<times> signal" where
  "set_interpolator s arg =
     (case arg of
        ArgNone \<Rightarrow> (None, s)
      | ArgValue f \<Rightarrow> (None, s\<lparr>interpolator := f, interpolate_cache := None\<rparr>)
      | ArgOther \<Rightarrow> (Some TypeError, s))"

definition set_interpolator_kwargs :: "signal \<Rightarrow> kwargs setter_arg \<Rightarrow> error option \<times> signal" where
  "set_interpolator_kwargs s arg =
     (case arg of
        ArgNone \<Rightarrow> (None, s)
      | ArgValue k \<Rightarrow> (None, s\<lparr>interpolator_kwargs := k, interpolate_cache := None\<rparr>)
      | ArgOther \<Rightarrow> (Some TypeError, s))"

text \<open>
  The \<open>interpolator_kwargs\<close> getter writes the domain axis into the stored dictionary
  before returning it.
\<close>

definition get_interpolator_kwargs :: "signal \<Rightarrow> kwargs \<times> signal" where
  "get_interpolator_kwargs s =
     (let k = AList.update ''axis'' (PInt (int (domain_axis s))) (interpolator_kwargs s)
      in (k, s\<lparr>interpolator_kwargs := k\<rparr>))"

text \<open>
  The \<open>interpolate\<close> property: the cached interpolant if there is one; otherwise the
  interpolator is applied to the domain and the values, its result is wrapped with the
  clipping to the signal bounds, and the wrapper is stored.
\<close>

definition interpolate :: "signal \<Rightarrow> (error + interpolant) \<times> signal" where
  "interpolate s =
     (case interpolate_cache s of
        Some w \<Rightarrow> (Inr w, s)
      | None \<Rightarrow>
          (let (k, s1) = get_interpolator_kwargs s
           in case interpolator s1 (dmagnitude (sdomain s1)) (svalues s1) k of
                Inl e \<Rightarrow> (Inl e, s1)
              | Inr itp \<Rightarrow>
                  (let clip_wrapper =
                         (\<lambda>q. bindE (itp q) (\<lambda>v. clip_values v (signal_min s1) (signal_max s1)))
                   in (Inr clip_wrapper, s1\<lparr>interpolate_cache := Some clip_wrapper\<rparr>))))"

text \<open>
  The check of \<open>domain_min\<close> and \<open>domain_max\<close> in \<open>__call__\<close>; \<open>crd\<close> holds the
  requested coordinates and \<open>domain_units\<close> their units.
\<close>

definition check_domain_range ::
  "conversion \<Rightarrow> signal \<Rightarrow> coords \<Rightarrow> punit \<Rightarrow> error option" where
  "check_domain_range conv s crd domain_units =
     (case (case domain_min s of
              None \<Rightarrow> Inr ()
            | Some (m, mu) \<Rightarrow>
                bindE (to_units conv mu domain_units) (\<lambda>f.
                bindE (np_min (coords_list crd)) (\<lambda>lowest.
                  if lowest > f m then Inl DreyeError else Inr ()))) of
        Inl e \<Rightarrow> Some e
      | Inr _ \<Rightarrow>
          (case domain_max s of
             None \<Rightarrow> None
           | Some (m, mu) \<Rightarrow>
               (case bindE (to_units conv mu domain_units) (\<lambda>f.
                     bindE (np_max (coords_list crd)) (\<lambda>highest.
                       if highest < f m then Inl DreyeError else Inr ())) of
                  Inl e \<Rightarrow> Some e
                | Inr _ \<Rightarrow> None)))"

text \<open>
  Modelled from the spec: the Domain constructor is not part of the sources.
  \<open>domain_class conv crd u v\<close> is a new Domain built from the coordinates \<open>crd\<close>, which
  are in units \<open>u\<close>, expressed in units \<open>v\<close>.
\<close>

definition domain_class :: "conversion \<Rightarrow> coords \<Rightarrow> punit \<Rightarrow> punit \<Rightarrow> error + domain" where
  "domain_class conv crd u v =
     bindE (to_units conv u v) (\<lambda>f.
       Inr \<lparr>dmagnitude = map f (coords_list crd), dunits = v\<rparr>)"

datatype call_result = Quantity ndarray punit | NewSignal signal

text \<open>
  The first lines of \<open>__call__\<close>: the requested coordinates in the units of the
  signal's own domain, and the units of the request. A Domain brings its own units and is
  converted; anything else is taken in the units of the own domain.
\<close>

definition request :: "conversion \<Rightarrow> signal \<Rightarrow> query \<Rightarrow> error + (coords \<times> punit)" where
  "request conv s q =
     (case q of
        QDomain d \<Rightarrow>
          bindE (to_units conv (dunits d) (dunits (sdomain s))) (\<lambda>f.
            Inr (Coords (map f (dmagnitude d)), dunits d))
      | QRaw c \<Rightarrow> Inr (c, dunits (sdomain s)))"

text \<open>
  \<open>__call__\<close>. The result comes with the receiver, whose interpolant cache the call may
  have filled. The copy made for the new Signal is a copy of each attribute.
\<close>

definition call :: "conversion \<Rightarrow> signal \<Rightarrow> query \<Rightarrow> (error + call_result) \<times> signal" where
  "call conv s q =
     (case request conv s q of
        Inl e \<Rightarrow> (Inl e, s)
      | Inr (crd, domain_units) \<Rightarrow>
          (case check_domain_range conv s crd domain_units of
             Some e \<Rightarrow> (Inl e, s)
           | None \<Rightarrow>
               (case interpolate s of
                  (Inl e, s1) \<Rightarrow> (Inl e, s1)
                | (Inr f, s1) \<Rightarrow>
                    (case f crd of
                       Inl e \<Rightarrow> (Inl e, s1)
                     | Inr vals \<Rightarrow>
                         if ndim vals < ndim (svalues s1) then
                           (Inr (Quantity vals (sunits s1)), s1)
                         else if domain_axis s1 \<ge> length (shape vals) then
                           (Inl IndexError, s1)
                         else if shape vals ! domain_axis s1 = 1 then
                           (Inr (Quantity vals (sunits s1)), s1)
                         else
                           (case domain_class conv crd (dunits (sdomain s1)) domain_units of
                              Inl e \<Rightarrow> (Inl e, s1)
                            | Inr d \<Rightarrow>
                                (Inr (NewSignal (s1\<lparr>svalues := vals, sdomain := d\<rparr>)),
                                 s1))))))"

text \<open>
  Equality of signals: the same class, equal units, equal domains and equal magnitudes.
\<close>

definition signal_eq :: "signal \<Rightarrow> signal \<Rightarrow> bool" where
  "signal_eq a b =
     (if sclass a \<noteq> sclass b then False
      else sunits a = sunits b \<and> sdomain a = sdomain b \<and> svalues a = svalues b)"

text \<open>The state of a Signal that a caller observes.\<close>

definition observable ::
  "signal \<Rightarrow> ndarray \<times> domain \<times> dtype option \<times> label_axis \<times> punit \<times> clip_bound \<times> clip_bound" where
  "observable s =
     (svalues s, sdomain s, sdtype s, slabels s, sunits s, signal_min s, signal_max s)"

section \<open>Integral and normalisation\<close>

text \<open>
  \<open>np.trapz(y, x)\<close> along one axis: the differences of \<open>x\<close> times the sums of
  neighbouring samples, halved and summed.
\<close>

definition diff :: "real list \<Rightarrow> real list" where
  "diff xs = map (\<lambda>(a, b). a - b) (zip (tl xs) (butlast xs))"

definition trapz1 :: "real list \<Rightarrow> real list \<Rightarrow> error + real" where
  "trapz1 xs ys =
     bindE (bcast2 (\<lambda>d v. d * v / 2) (diff xs) (map (\<lambda>(a, b). a + b) (zip (tl ys) (butlast ys))))
       (\<lambda>ps. Inr (sum_list ps))"

fun trapz :: "ndarray \<Rightarrow> real list \<Rightarrow> nat \<Rightarrow> error + ndarray" where
  "trapz (A0 v) xs axis = Inl ValueError"
| "trapz (A1 ys) xs axis =
     (if axis = 0 then bindE (trapz1 xs ys) (\<lambda>v. Inr (A0 v)) else Inl ValueError)"
| "trapz (A2 rows) xs axis =
     (if axis = 0 then
        bindE (sequenceE (map (\<lambda>j. trapz1 xs (column j rows)) [0 ..< ncols rows]))
          (\<lambda>vs. Inr (A1 vs))
      else if axis = 1 then
        bindE (sequenceE (map (trapz1 xs) rows)) (\<lambda>vs. Inr (A1 vs))
      else Inl ValueError)"

definition integral :: "signal \<Rightarrow> error + (ndarray \<times> punit)" where
  "integral s =
     bindE (trapz (svalues s) (dmagnitude (sdomain s)) (domain_axis s)) (\<lambda>v.
       Inr (v, UMul (sunits s) (dunits (sdomain s))))"

definition other_axis :: "signal \<Rightarrow> nat option" where
  "other_axis s = (if ndim (svalues s) = 1 then None else Some ((domain_axis s + 1) mod 2))"

text \<open>
  Modelled from the spec: the division of a Signal and \<open>_broadcast\<close> are not part of the
  sources. The signal is divided by its integral, broadcast across the other axis: each
  channel by the integral of that channel. (A division by zero gives 0 here and an
  infinity or NaN in numpy; the statements below have integrals other than zero.)
\<close>

fun divide_broadcast :: "ndarray \<Rightarrow> ndarray \<Rightarrow> nat option \<Rightarrow> error + ndarray" where
  "divide_broadcast (A1 ys) (A0 v) None = Inr (A1 (map (\<lambda>y. y / v) ys))"
| "divide_broadcast (A2 rows) (A1 vs) (Some oa) =
     (if oa = 1 then
        (if list_all (\<lambda>r. length r = length vs) rows
         then Inr (A2 (map (\<lambda>r. map (\<lambda>(y, v). y / v) (zip r vs)) rows))
         else Inl ValueError)
      else
        (if length rows = length vs
         then Inr (A2 (map (\<lambda>(r, v). map (\<lambda>y. y / v) r) (zip rows vs)))
         else Inl ValueError))"
| "divide_broadcast _ _ _ = Inl ValueError"

definition normalized_signal :: "signal \<Rightarrow> error + signal" where
  "normalized_signal s =
     bindE (integral s) (\<lambda>(i, u).
     bindE (divide_broadcast (svalues s) i (other_axis s)) (\<lambda>v.
       Inr (s\<lparr>svalues := v, sunits := UDiv (sunits s) u, interpolate_cache := None\<rparr>)))"

fun nonzero :: "ndarray \<Rightarrow> bool" where
  "nonzero (A0 v) = (v \<noteq> 0)"
| "nonzero (A1 vs) = list_all (\<lambda>v. v \<noteq> 0) vs"
| "nonzero (A2 rows) = list_all (list_all (\<lambda>v. v \<noteq> 0)) rows"

fun rectangular :: "ndarray \<Rightarrow> bool" where
  "rectangular (A2 rows) = list_all (\<lambda>r. length r = ncols rows) rows"
| "rectangular _ = True"

section \<open>The labels of a MeasuredSpectrum\<close>

text \<open>
  \<open>np.argsort\<close> of a rank-1 array, and the test \<open>np.all(np.diff(sorted_idcs) == 1)\<close>.
\<close>

definition argsort :: "real list \<Rightarrow> nat list" where
  "argsort xs = map snd (sort_key fst (zip xs [0 ..< length xs]))"

definition diff_all_one :: "nat list \<Rightarrow> bool" where
  "diff_all_one idcs = list_all (\<lambda>(a, b). int a - int b = 1) (zip (tl idcs) (butlast idcs))"

text \<open>
  \<open>np.take_along_axis(arr, indices, axis)\<close> with a rank-1 index array. numpy requires the
  index array to have as many dimensions as \<open>arr\<close> and raises ValueError otherwise.
\<close>

definition take_along_axis :: "ndarray \<Rightarrow> nat list \<Rightarrow> nat option \<Rightarrow> error + ndarray" where
  "take_along_axis arr idcs axis =
     (case arr of
        A1 xs \<Rightarrow>
          if axis = Some 0 \<or> axis = None then
            (if list_all (\<lambda>i. i < length xs) idcs then Inr (A1 (map (\<lambda>i. xs ! i) idcs))
             else Inl IndexError)
          else Inl ValueError
      | _ \<Rightarrow> Inl ValueError)"

text \<open>
  Modelled from the spec: the Domain constructor, which orders the label values
  ascending and cannot be built from names.
\<close>

definition label_domain :: "label_axis \<Rightarrow> punit \<Rightarrow> error + domain" where
  "label_domain l u =
     (case l of
        LNumbers ls \<Rightarrow> Inr \<lparr>dmagnitude = sort ls, dunits = u\<rparr>
      | LDomain d \<Rightarrow> Inr d
      | _ \<Rightarrow> Inl DreyeError)"

text \<open>
  The part of \<open>MeasuredSpectrum.__init__\<close> that follows the construction of the Signal
  \<open>s\<close> and deals with its labels. Whatever is raised while generic labels are made into
  a Domain and the values are reordered is caught and raised again as DreyeError.
\<close>

definition init_labels :: "conversion \<Rightarrow> signal \<Rightarrow> punit option \<Rightarrow> error + signal" where
  "init_labels conv s lunits =
     (if ndim (svalues s) \<noteq> 2 then Inl DreyeError
      else
        (case slabels s of
           LDomain d \<Rightarrow>
             (case lunits of
                None \<Rightarrow> Inr s
              | Some u \<Rightarrow>
                  bindE (to_units conv (dunits d) u) (\<lambda>f.
                    Inr (s\<lparr>slabels := LDomain \<lparr>dmagnitude = map f (dmagnitude d), dunits = u\<rparr>\<rparr>)))
         | LNumbers ls \<Rightarrow>
             (let sorted_idcs = argsort ls;
                  u = (case lunits of None \<Rightarrow> UName ''dimensionless'' | Some v \<Rightarrow> v)
              in case bindE (label_domain (LNumbers ls) u) (\<lambda>d.
                        let s1 = s\<lparr>slabels := LDomain d\<rparr>
                        in if \<not> diff_all_one sorted_idcs then
                             bindE (take_along_axis (svalues s1) sorted_idcs (other_axis s1))
                               (\<lambda>v. Inr (s1\<lparr>svalues := v\<rparr>))
                           else Inr s1) of
                   Inl e \<Rightarrow> Inl DreyeError
                 | Inr r \<Rightarrow> Inr r)
         | _ \<Rightarrow> Inl DreyeError))"

section \<open>Linear interpolation\<close>

text \<open>
  \<open>scipy.interpolate.interp1d\<close> with its default, linear kind, over ascending
  coordinates \<open>xs\<close>: the index of a query is found by \<open>searchsorted\<close>, clipped to
  \<open>1 .. len(xs) - 1\<close>, and the value lies on the line through the two neighbouring
  samples. A query outside the coordinates raises ValueError (\<open>bounds_error\<close>); so do
  fewer than two samples here, and samples whose length differs from that of \<open>xs\<close>.
\<close>

definition searchsorted :: "real list \<Rightarrow> real \<Rightarrow> nat" where
  "searchsorted xs q = length (filter (\<lambda>x. x < q) xs)"

definition lin_at :: "real list \<Rightarrow> real list \<Rightarrow> real \<Rightarrow> real" where
  "lin_at xs ys q =
     (let hi = min (max (searchsorted xs q) 1) (length xs - 1);
          lo = hi - 1;
          slope = (ys ! hi - ys ! lo) / (xs ! hi - xs ! lo)
      in slope * (q - xs ! lo) + ys ! lo)"

definition in_range :: "real list \<Rightarrow> coords \<Rightarrow> bool" where
  "in_range xs q = list_all (\<lambda>v. hd xs \<le> v \<and> v \<le> last xs) (coords_list q)"

fun lin_eval :: "real list \<Rightarrow> ndarray \<Rightarrow> int \<Rightarrow> coords \<Rightarrow> ndarray" where
  "lin_eval xs (A1 ys) a (Scalar v) = A0 (lin_at xs ys v)"
| "lin_eval xs (A1 ys) a (Coords qs) = A1 (map (lin_at xs ys) qs)"
| "lin_eval xs (A2 rows) a (Scalar v) =
     (if a = 0 then A1 (map (\<lambda>j. lin_at xs (column j rows) v) [0 ..< ncols rows])
      else A1 (map (\<lambda>r. lin_at xs r v) rows))"
| "lin_eval xs (A2 rows) a (Coords qs) =
     (if a = 0
      then A2 (map (\<lambda>q. map (\<lambda>j. lin_at xs (column j rows) q) [0 ..< ncols rows]) qs)
      else A2 (map (\<lambda>r. map (lin_at xs r) qs) rows))"
| "lin_eval xs (A0 y) a q = A0 y"

fun axis_ok :: "real list \<Rightarrow> ndarray \<Rightarrow> int \<Rightarrow> bool" where
  "axis_ok xs (A0 _) a = False"
| "axis_ok xs (A1 ys) a = (a = 0 \<and> length ys = length xs)"
| "axis_ok xs (A2 rows) a =
     ((a = 0 \<and> length rows = length xs) \<or> (a = 1 \<and> list_all (\<lambda>r. length r = length xs) rows))"

definition interp1d_linear :: interpolator where
  "interp1d_linear xs vals kw =
     (case map_of kw ''axis'' of
        Some (PInt a) \<Rightarrow>
          if length xs < 2 \<or> \<not> axis_ok xs vals a then Inl ValueError
          else Inr (\<lambda>q. if in_range xs q then Inr (lin_eval xs vals a q) else Inl ValueError)
      | _ \<Rightarrow> Inl TypeError)"

section \<open>Example data\<close>

definition ch_a :: measured_spectrum where
  "ch_a = \<lparr>ms_name = ''a'', labels = \<lparr>dmagnitude = [1, 2, 3], dunits = UName ''volt''\<rparr>,
           intensity = [2, 4, 6], zero_is_lower = True, zero_boundary = Some 0,
           max_boundary = None\<rparr>"

definition ch_b :: measured_spectrum where
  "ch_b = \<lparr>ms_name = ''b'', labels = \<lparr>dmagnitude = [1, 2, 3], dunits = UName ''volt''\<rparr>,
           intensity = [6, 4, 2], zero_is_lower = False, zero_boundary = Some 5,
           max_boundary = None\<rparr>"

definition no_conv :: conversion where
  "no_conv u v = Inl DreyeError"

definition sig1 :: signal where
  "sig1 = \<lparr>sclass = ''Signal'', svalues = A1 [10, 20, 30], sunits = UName ''volt'',
            sdomain = \<lparr>dmagnitude = [1, 2, 3], dunits = UName ''nm''\<rparr>,
            sdtype = None, domain_axis = 0, slabels = LNone,
            interpolator = interp1d_linear, interpolator_kwargs = [],
            domain_min = None, domain_max = None,
            signal_min = NoBound, signal_max = NoBound, interpolate_cache = None\<rparr>"

definition sig_bounded :: signal where
  "sig_bounded = sig1\<lparr>domain_min := Some (0, UName ''nm''), domain_max := Some (10, UName ''nm'')\<rparr>"

definition sig1_interp :: interpolant where
  "sig1_interp = (\<lambda>q. bindE (if in_range [1, 2, 3] q
                               then Inr (lin_eval [1, 2, 3] (A1 [10, 20, 30]) 0 q)
                               else Inl ValueError)
                        (\<lambda>v. clip_values v NoBound NoBound))"

definition sig1_built :: signal where
  "sig1_built = sig1\<lparr>interpolator_kwargs := [(''axis'', PInt 0)],
                      interpolate_cache := Some sig1_interp\<rparr>"

definition spectrum_unsorted :: signal where
  "spectrum_unsorted =
     \<lparr>sclass = ''MeasuredSpectrum'', svalues = A2 [[1, 2], [3, 4], [5, 6]],
      sunits = UName ''irradiance'',
      sdomain = \<lparr>dmagnitude = [400, 500, 600], dunits = UName ''nm''\<rparr>,
      sdtype = None, domain_axis = 0, slabels = LNumbers [5, 3],
      interpolator = interp1d_linear, interpolator_kwargs = [],
      domain_min = None, domain_max = None,
      signal_min = ListBound [0, 1], signal_max = ListBound [10, 20],
      interpolate_cache = None\<rparr>"

section \<open>Boundaries of the control input\<close>

lemma mask_assign_nth:
  "length a = n \<Longrightarrow> length m = n \<Longrightarrow> length b = n \<Longrightarrow> i < n \<Longrightarrow>
   mask_assign a m b ! i = (if m ! i then b ! i else a ! i)"
  by (simp add: mask_assign_def)

lemma mask_assign_length:
  "length a = n \<Longrightarrow> length m = n \<Longrightarrow> length b = n \<Longrightarrow> length (mask_assign a m b) = n"
  by (simp add: mask_assign_def)

lemma nan_assign_nth:
  "length a = n \<Longrightarrow> length b = n \<Longrightarrow> i < n \<Longrightarrow>
   nan_assign a b ! i = (case a ! i of None \<Rightarrow> b ! i | Some v \<Rightarrow> v)"
  by (simp add: nan_assign_def)

text \<open>
  C5. For every channel \<open>i\<close> of a container: when \<open>zero_is_lower\<close> holds, the lower
  boundary is the zero boundary, or the lowest tested input (\<open>starts\<close>) when the zero
  boundary is undefined, and the upper boundary is the max boundary, or the highest
  tested input (\<open>ends\<close>) when that is undefined; when \<open>zero_is_lower\<close> does not hold,
  the zero boundary and the max boundary change places.
\<close>

theorem boundary_roles:
  assumes "i < length c"
  shows "lower_boundary c ! i =
           (if zero_is_lower (c ! i)
            then (case zero_boundary (c ! i) of Some z \<Rightarrow> z | None \<Rightarrow> starts c ! i)
            else (case max_boundary (c ! i) of Some m \<Rightarrow> m | None \<Rightarrow> starts c ! i))
       \<and> upper_boundary c ! i =
           (if zero_is_lower (c ! i)
            then (case max_boundary (c ! i) of Some m \<Rightarrow> m | None \<Rightarrow> ends c ! i)
            else (case zero_boundary (c ! i) of Some z \<Rightarrow> z | None \<Rightarrow> ends c ! i))"
  using assms
  by (simp add: lower_boundary_def upper_boundary_def Let_def starts_def ends_def
      nan_assign_nth [where n = "length c"] mask_assign_length [where n = "length c"]
      mask_assign_nth [where n = "length c"] split: option.splits)

theorem boundary_roles_witness:
  "(1::nat) < length [ch_a, ch_b]
   \<and> lower_boundary [ch_a, ch_b] ! 1 = 1 \<and> upper_boundary [ch_a, ch_b] ! 1 = 5"
  using boundary_roles [of 1 "[ch_a, ch_b]"]
  by (simp add: ch_a_def ch_b_def starts_def ends_def dstart_def dend_def)

section \<open>The zero sample of a channel's mapper\<close>

lemma splice_zero_lower:
  "np_min x = Inr mn \<Longrightarrow> z < mn \<Longrightarrow> splice_zero (Some z) True x y = Inr (z # x, 0 # y)"
  by (simp add: splice_zero_def bindE_def)

lemma splice_zero_upper:
  "np_max x = Inr mx \<Longrightarrow> mx < z \<Longrightarrow> splice_zero (Some z) False x y = Inl AttributeError"
  by (simp add: splice_zero_def bindE_def)

text \<open>
  C3. A channel with \<open>zero_is_lower = False\<close>, tested inputs 1, 2, 3 and zero boundary 5:
  the zero boundary lies above the highest tested input, so the pair (5, 0) is to be
  appended. Building the mapper stops with AttributeError instead, whatever the regression
  and the interpolant are, and with it every \<open>map\<close> on a container holding the channel.
\<close>

theorem get_single_mapper_zero_above:
  "get_single_mapper isofit itp [ch_b] 0 ch_b = Inl AttributeError
   \<and> map_values isofit itp [ch_b] (A1 [3]) units = Inl AttributeError"
  by (simp add: map_values_def pre_mapping_def bcast_all_def row_all_def mapper_func_def
      get_single_mapper_def splice_zero_def bindE_def np_max_def np_min_def ch_b_def
      bounds_def isnan_zero_boundary_def Let_def)

section \<open>The bounds check of map\<close>

lemma sequenceE_length: "sequenceE ms = Inr xs \<Longrightarrow> length xs = length ms"
  by (induction ms arbitrary: xs) (auto simp: bindE_def split: sum.splits)





lemma bounds_empty: "bounds [] = Inl IndexError"
  by (simp add: bounds_def isnan_zero_boundary_def bindE_def)

lemma bounds_undefined_zero_boundary:
  "bounds [ch_a\<lparr>zero_boundary := None\<rparr>] = Inl TypeError"
  by (simp add: bounds_def isnan_zero_boundary_def bindE_def np_min_def np_max_def ch_a_def)

lemma bounds_defined:
  assumes "bounds c = Inr (lo, hi)"
  shows "c \<noteq> [] \<and> list_all (\<lambda>ele. zero_boundary ele \<noteq> None) c \<and> list_all (\<lambda>l. l = 0) lo"
proof -
  from assms obtain b where
    b: "sequenceE (map (\<lambda>ele. bindE (np_min (intensity ele)) (\<lambda>lo.
                          bindE (np_max (intensity ele)) (\<lambda>hi. Inr (lo, hi)))) c) = Inr b"
    and z: "\<not> list_ex (\<lambda>ele. zero_boundary ele = None) c" and ne: "b \<noteq> []"
    and lo: "lo = map (\<lambda>((lo, hi), n). if \<not> n then 0 else lo) (zip b (map (\<lambda>ele. False) c))"
    by (auto simp: bounds_def isnan_zero_boundary_def bindE_def split: sum.splits if_splits)
  have "length b = length c"
    using sequenceE_length [OF b] by simp
  with ne have "c \<noteq> []"
    by auto
  moreover have "list_all (\<lambda>ele. zero_boundary ele \<noteq> None) c"
    using z by (simp add: list_all_iff list_ex_iff)
  moreover have "list_all (\<lambda>l. l = 0) lo"
    by (auto simp: lo list_all_iff set_zip)
  ultimately show ?thesis
    by simp
qed

lemma map_values_bounds_error:
  "bounds c = Inl e \<Longrightarrow> map_values isofit itp c vals u = Inl e"
  by (simp add: map_values_def pre_mapping_def bindE_def)



lemma map_values_in_bounds_example:
  "map_values (\<lambda>lo hi inc x y. y) (\<lambda>ny x fill v. v) [ch_a] (A1 [3]) True
     = Inr ([[3]], Some (UName ''volt''))"
  by (simp add: map_values_def pre_mapping_def bcast_all_def row_all_def mapper_func_def
      get_single_mapper_def splice_zero_def bindE_def np_max_def np_min_def ch_a_def
      bounds_def isnan_zero_boundary_def Let_def post_mapping_def label_units_def clip_row_def bcast2_def
      lower_boundary_def upper_boundary_def mask_assign_def nan_assign_def starts_def
      ends_def dstart_def dend_def ncols_def)

section \<open>The domain range check of a call\<close>

lemma np_min_Min: "xs \<noteq> [] \<Longrightarrow> np_min xs = Inr (Min (set xs))"
  by (cases xs) (simp_all add: np_min_def Min.set_eq_fold [symmetric])

lemma np_max_Max: "xs \<noteq> [] \<Longrightarrow> np_max xs = Inr (Max (set xs))"
  by (cases xs) (simp_all add: np_max_def Max.set_eq_fold [symmetric])

text \<open>
  C2, as the code has it. Let the request hold at least one coordinate, in the units of
  the signal's own domain, as are \<open>domain_min\<close> and \<open>domain_max\<close> where configured.
  The check raises the domain error exactly when the lowest requested coordinate lies
  above \<open>domain_min\<close> or the highest one lies below \<open>domain_max\<close>: the request has
  to cover the configured range. Then the call raises the domain error and leaves the
  receiver as it was; a request that covers the range passes the check.
\<close>

theorem call_domain_range:
  assumes "coords_list crd \<noteq> []"
    and "domain_min s = map_option (\<lambda>m. (m, dunits (sdomain s))) dmin"
    and "domain_max s = map_option (\<lambda>m. (m, dunits (sdomain s))) dmax"
  shows "check_domain_range conv s crd (dunits (sdomain s)) =
           (if (\<exists>m. dmin = Some m \<and> m < Min (set (coords_list crd)))
               \<or> (\<exists>m. dmax = Some m \<and> Max (set (coords_list crd)) < m)
            then Some DreyeError else None)
       \<and> ((\<exists>m. dmin = Some m \<and> m < Min (set (coords_list crd)))
               \<or> (\<exists>m. dmax = Some m \<and> Max (set (coords_list crd)) < m)
            \<longrightarrow> call conv s (QRaw crd) = (Inl DreyeError, s))"
proof -
  have c: "check_domain_range conv s crd (dunits (sdomain s)) =
           (if (\<exists>m. dmin = Some m \<and> m < Min (set (coords_list crd)))
               \<or> (\<exists>m. dmax = Some m \<and> Max (set (coords_list crd)) < m)
            then Some DreyeError else None)"
    using assms
    by (cases dmin; cases dmax)
       (auto simp: check_domain_range_def to_units_def bindE_def np_min_Min np_max_Max)
  show ?thesis
    unfolding c by (simp add: call_def request_def c)
qed

theorem call_domain_range_witness:
  "check_domain_range no_conv sig_bounded (Coords [-5, 15]) (UName ''nm'') = None
   \<and> call no_conv sig_bounded (QRaw (Coords [1, 2])) = (Inl DreyeError, sig_bounded)"
proof -
  have u: "dunits (sdomain sig_bounded) = UName ''nm''"
    by (simp add: sig_bounded_def sig1_def)
  have mn: "domain_min sig_bounded = map_option (\<lambda>m. (m, dunits (sdomain sig_bounded))) (Some 0)"
    by (simp add: sig_bounded_def sig1_def)
  have mx: "domain_max sig_bounded = map_option (\<lambda>m. (m, dunits (sdomain sig_bounded))) (Some 10)"
    by (simp add: sig_bounded_def sig1_def)
  have n1: "coords_list (Coords [-5, 15]) \<noteq> []" and n2: "coords_list (Coords [1, 2]) \<noteq> []"
    by simp_all
  show ?thesis
    using call_domain_range [OF n1 mn mx, of no_conv] call_domain_range [OF n2 mn mx, of no_conv]
    by (simp add: u)
qed

text \<open>
  C2, as the claim has it, fails: with \<open>domain_min = 0\<close> and \<open>domain_max = 10\<close> the
  request \<open>[1, 2]\<close> lies within the bounds and is refused with the domain error, and
  the request \<open>[-5, 15]\<close> exceeds them on both sides and passes the check.
\<close>

theorem call_within_bounds_refused:
  "call no_conv sig_bounded (QRaw (Coords [1, 2])) = (Inl DreyeError, sig_bounded)
   \<and> check_domain_range no_conv sig_bounded (Coords [-5, 15]) (UName ''nm'') = None"
  by (simp add: call_def request_def check_domain_range_def sig_bounded_def sig1_def
      to_units_def bindE_def np_min_def np_max_def)

section \<open>The result of a call\<close>

lemma interpolate_sig1: "interpolate sig1 = (Inr sig1_interp, sig1_built)"
  by (simp add: interpolate_def get_interpolator_kwargs_def sig1_def sig1_built_def
      sig1_interp_def interp1d_linear_def Let_def)

lemma sig1_interp_scalar: "sig1_interp (Scalar 2) = Inr (A0 20)"
  by (simp add: sig1_interp_def in_range_def bindE_def clip_values_def lin_at_def
      searchsorted_def Let_def)

lemma sig1_interp_coords: "sig1_interp (Coords [3/2, 5/2]) = Inr (A1 [15, 25])"
  by (simp add: sig1_interp_def in_range_def bindE_def clip_values_def lin_at_def
      searchsorted_def Let_def)

lemma interpolate_keeps:
  "interpolate s = (r, s1) \<Longrightarrow>
   svalues s1 = svalues s \<and> sunits s1 = sunits s \<and> sdomain s1 = sdomain s
   \<and> domain_axis s1 = domain_axis s \<and> sdtype s1 = sdtype s \<and> slabels s1 = slabels s
   \<and> signal_min s1 = signal_min s \<and> signal_max s1 = signal_max s"
  by (auto simp: interpolate_def get_interpolator_kwargs_def Let_def
      split: option.splits sum.splits)

lemma length_shape: "length (shape a) = ndim a"
  by (cases a) simp_all

text \<open>
  C8. Let the request be accepted by the range check, let the interpolant return the
  values \<open>vals\<close> for it, and let \<open>d\<close> be the Domain built from the requested
  coordinates. If \<open>vals\<close> has a lower rank than the signal's values, or length 1 along
  the domain axis, the call returns \<open>vals\<close> with the signal's units and no Signal; in
  every other case it returns a new Signal with the values \<open>vals\<close> and the domain \<open>d\<close>.
\<close>

theorem call_rank_reduction:
  assumes "request conv s q = Inr (crd, du)"
    and "check_domain_range conv s crd du = None"
    and "interpolate s = (Inr f, s1)"
    and "f crd = Inr vals"
    and "domain_axis s < ndim (svalues s)"
    and "domain_class conv crd (dunits (sdomain s)) du = Inr d"
  shows "call conv s q =
     (if ndim vals < ndim (svalues s) \<or> shape vals ! domain_axis s = 1
      then (Inr (Quantity vals (sunits s)), s1)
      else (Inr (NewSignal (s1\<lparr>svalues := vals, sdomain := d\<rparr>)), s1))"
proof -
  note k = interpolate_keeps [OF assms(3)]
  show ?thesis
    using assms(5)
    by (simp add: call_def assms(1-4) k assms(6) length_shape)
qed

theorem call_rank_reduction_witness:
  "call no_conv sig1 (QRaw (Scalar 2)) = (Inr (Quantity (A0 20) (UName ''volt'')), sig1_built)
   \<and> call no_conv sig1 (QRaw (Coords [3/2, 5/2]))
       = (Inr (NewSignal (sig1_built\<lparr>svalues := A1 [15, 25],
              sdomain := \<lparr>dmagnitude = [3/2, 5/2], dunits = UName ''nm''\<rparr>\<rparr>)), sig1_built)"
proof -
  have r: "request no_conv sig1 (QRaw c) = Inr (c, UName ''nm'')" for c
    by (simp add: request_def sig1_def)
  have g: "check_domain_range no_conv sig1 c (UName ''nm'') = None" for c
    by (simp add: check_domain_range_def sig1_def)
  have a: "domain_axis sig1 < ndim (svalues sig1)"
    by (simp add: sig1_def)
  have d: "domain_class no_conv c (dunits (sdomain sig1)) (UName ''nm'')
             = Inr \<lparr>dmagnitude = coords_list c, dunits = UName ''nm''\<rparr>" for c
    by (simp add: domain_class_def to_units_def bindE_def sig1_def)
  show ?thesis
    using call_rank_reduction [OF r g interpolate_sig1 sig1_interp_scalar a d]
      call_rank_reduction [OF r g interpolate_sig1 sig1_interp_coords a d]
    by (simp add: sig1_def)
qed

section \<open>The cached interpolant\<close>

lemma set_interpolator_invalidates:
  "interpolate_cache (snd (set_interpolator s (ArgValue f))) = None"
  by (simp add: set_interpolator_def)

lemma set_interpolator_kwargs_invalidates:
  "interpolate_cache (snd (set_interpolator_kwargs s (ArgValue k))) = None"
  by (simp add: set_interpolator_kwargs_def)

lemma set_values_keeps_cache:
  "interpolate_cache (snd (set_values conv s a)) = interpolate_cache s"
  by (auto simp: set_values_def split: sum.splits)

text \<open>
  C4. A signal with the values 10, 20, 30 at the coordinates 1, 2, 3 has built its
  interpolant. The values setter then stores 100, 200, 300 and leaves the cache as it
  is, so \<open>interpolate\<close> returns the interpolant of the old values: at 2 it gives 20,
  where an interpolant of the new values gives 200.
\<close>

theorem stale_interpolant_after_values_setter:
  "interpolate sig1 = (Inr sig1_interp, sig1_built)
   \<and> set_values no_conv sig1_built (A1 [100, 200, 300], None)
     = (None, sig1_built\<lparr>svalues := A1 [100, 200, 300]\<rparr>)
   \<and> interpolate (sig1_built\<lparr>svalues := A1 [100, 200, 300]\<rparr>)
     = (Inr sig1_interp, sig1_built\<lparr>svalues := A1 [100, 200, 300]\<rparr>)
   \<and> sig1_interp (Scalar 2) = Inr (A0 20)
   \<and> bindE (interp1d_linear [1, 2, 3] (A1 [100, 200, 300]) [(''axis'', PInt 0)])
        (\<lambda>g. g (Scalar 2)) = Inr (A0 200)"
proof -
  have "set_values no_conv sig1_built (A1 [100, 200, 300], None)
          = (None, sig1_built\<lparr>svalues := A1 [100, 200, 300]\<rparr>)"
    by (simp add: set_values_def sig1_built_def sig1_def)
  moreover have "interpolate (sig1_built\<lparr>svalues := A1 [100, 200, 300]\<rparr>)
          = (Inr sig1_interp, sig1_built\<lparr>svalues := A1 [100, 200, 300]\<rparr>)"
    by (simp add: interpolate_def sig1_built_def)
  moreover have "bindE (interp1d_linear [1, 2, 3] (A1 [100, 200, 300]) [(''axis'', PInt 0)])
          (\<lambda>g. g (Scalar 2)) = Inr (A0 200)"
    by (simp add: interp1d_linear_def bindE_def in_range_def lin_at_def searchsorted_def Let_def)
  ultimately show ?thesis
    using interpolate_sig1 sig1_interp_scalar by simp
qed

section \<open>The receiver after a failed operation\<close>

lemma call_keeps_observable: "observable (snd (call conv s q)) = observable s"
proof -
  obtain r s1 where i: "interpolate s = (r, s1)"
    by (cases "interpolate s")
  note k = interpolate_keeps [OF i]
  show ?thesis
    by (auto simp: call_def i k observable_def split: sum.splits option.splits prod.splits)
qed

lemma set_values_failed: "fst (set_values conv s a) \<noteq> None \<Longrightarrow> snd (set_values conv s a) = s"
  by (auto simp: set_values_def split: sum.splits if_splits)

lemma set_interpolator_failed:
  "fst (set_interpolator s i) \<noteq> None \<Longrightarrow> snd (set_interpolator s i) = s"
  by (cases i) (simp_all add: set_interpolator_def)

lemma set_interpolator_kwargs_failed:
  "fst (set_interpolator_kwargs s k) \<noteq> None \<Longrightarrow> snd (set_interpolator_kwargs s k) = s"
  by (cases k) (simp_all add: set_interpolator_kwargs_def)

lemma set_dtype_keeps:
  "fst (set_dtype np dset s d) \<noteq> None \<Longrightarrow>
     svalues (snd (set_dtype np dset s d)) = svalues s
   \<and> sunits (snd (set_dtype np dset s d)) = sunits s
   \<and> slabels (snd (set_dtype np dset s d)) = slabels s
   \<and> signal_min (snd (set_dtype np dset s d)) = signal_min s
   \<and> signal_max (snd (set_dtype np dset s d)) = signal_max s"
  by (auto simp: set_dtype_def Let_def bindE_def split: dtype_arg.splits sum.splits option.splits)

lemma set_dtype_rejected:
  "d = DtOther \<or> (\<exists>nm e. d = DtStr nm \<and> np nm = Inl e) \<Longrightarrow> snd (set_dtype np dset s d) = s"
  by (auto simp: set_dtype_def Let_def bindE_def)

lemma set_dtype_late_failure:
  "f (svalues s) = Inl e \<Longrightarrow>
   fst (set_dtype np dset s (DtCallable f)) \<noteq> None
   \<and> sdtype (snd (set_dtype np dset s (DtCallable f))) = Some f"
  by (auto simp: set_dtype_def Let_def split: sum.splits)

text \<open>
  C10, as the code has it. The setters of the values, the interpolator and the
  interpolator arguments leave the receiver as it was when they raise, and a call never
  changes the observable state of its receiver. The dtype setter leaves the receiver as
  it was when it refuses its argument (not callable, or a name that is no dtype); when
  it raises later, the values, units, labels and clip bounds are as before.
\<close>

theorem failed_operation_state:
  "(fst (set_values conv s a) \<noteq> None \<longrightarrow> snd (set_values conv s a) = s)
   \<and> (fst (set_interpolator s i) \<noteq> None \<longrightarrow> snd (set_interpolator s i) = s)
   \<and> (fst (set_interpolator_kwargs s k) \<noteq> None \<longrightarrow> snd (set_interpolator_kwargs s k) = s)
   \<and> observable (snd (call conv s q)) = observable s
   \<and> (fst (set_dtype np dset s d) \<noteq> None \<longrightarrow>
        svalues (snd (set_dtype np dset s d)) = svalues s
      \<and> sunits (snd (set_dtype np dset s d)) = sunits s
      \<and> slabels (snd (set_dtype np dset s d)) = slabels s
      \<and> signal_min (snd (set_dtype np dset s d)) = signal_min s
      \<and> signal_max (snd (set_dtype np dset s d)) = signal_max s)
   \<and> (d = DtOther \<or> (\<exists>nm e. d = DtStr nm \<and> np nm = Inl e) \<longrightarrow>
        fst (set_dtype np dset s d) \<noteq> None \<and> snd (set_dtype np dset s d) = s)"
  using set_values_failed [of conv s a] set_interpolator_failed [of s i]
    set_interpolator_kwargs_failed [of s k] call_keeps_observable [of conv s q]
    set_dtype_keeps [of np dset s d] set_dtype_rejected [of d np dset s]
  by (auto simp: set_dtype_def Let_def bindE_def)

theorem failed_operation_state_witness:
  "fst (set_values no_conv sig1 (A1 [1], None)) = Some DreyeError
   \<and> snd (set_values no_conv sig1 (A1 [1], None)) = sig1
   \<and> fst (set_dtype (\<lambda>nm. Inl TypeError) (\<lambda>dm v. Inr dm) sig1 DtOther) = Some AttributeError
   \<and> snd (set_dtype (\<lambda>nm. Inl TypeError) (\<lambda>dm v. Inr dm) sig1 DtOther) = sig1"
proof -
  have 1: "fst (set_values no_conv sig1 (A1 [1], None)) = Some DreyeError"
    by (simp add: set_values_def sig1_def)
  have 2: "fst (set_dtype (\<lambda>nm. Inl TypeError) (\<lambda>dm v. Inr dm) sig1 DtOther) = Some AttributeError"
    by (simp add: set_dtype_def)
  show ?thesis
    using failed_operation_state [of no_conv sig1 "(A1 [1], None)" ArgNone ArgNone "QRaw (Scalar 2)"
        "\<lambda>nm. Inl TypeError" "\<lambda>dm v. Inr dm" DtOther] 1 2
    by simp
qed

text \<open>
  C10, as the claim has it, fails: the dtype setter stores the new dtype before it
  converts the values. With a dtype whose conversion of the values raises, the setter
  raises and the receiver holds the new dtype.
\<close>

theorem dtype_setter_partial_update:
  "fst (set_dtype (\<lambda>nm. Inl TypeError) (\<lambda>dm v. Inr dm) sig1 (DtCallable (\<lambda>a. Inl TypeError)))
     = Some TypeError
   \<and> sdtype sig1 = None
   \<and> sdtype (snd (set_dtype (\<lambda>nm. Inl TypeError) (\<lambda>dm v. Inr dm) sig1
               (DtCallable (\<lambda>a. Inl TypeError)))) = Some (\<lambda>a. Inl TypeError)
   \<and> observable (snd (set_dtype (\<lambda>nm. Inl TypeError) (\<lambda>dm v. Inr dm) sig1
               (DtCallable (\<lambda>a. Inl TypeError)))) \<noteq> observable sig1"
  by (simp add: set_dtype_def sig1_def observable_def)

section \<open>The integral of a normalised signal\<close>

lemma sequenceE_nth:
  "sequenceE ms = Inr xs \<Longrightarrow> i < length ms \<Longrightarrow> ms ! i = Inr (xs ! i)"
proof (induction ms arbitrary: xs i)
  case Nil
  then show ?case by simp
next
  case (Cons m ms)
  then show ?case
    by (cases i) (auto simp: bindE_def split: sum.splits)
qed

lemma sequenceE_map_Inr:
  "(\<And>x. x \<in> set xs \<Longrightarrow> f x = Inr (g x)) \<Longrightarrow> sequenceE (map f xs) = Inr (map g xs)"
  by (induction xs) (auto simp: bindE_def)

lemma bcast2_scale:
  assumes "bcast2 (\<lambda>d v. d * v / 2) ds vs = Inr ps"
  shows "bcast2 (\<lambda>d v. d * v / 2) ds (map (\<lambda>v. v / c) vs) = Inr (map (\<lambda>p. p / c) ps)"
proof -
  have hd_map: "hd (map (\<lambda>v. v / c) vs) = hd vs / c" if "length vs = 1"
    using that by (cases vs) simp_all
  show ?thesis
    using assms
    by (auto simp: bcast2_def hd_map zip_map2 split: if_splits)
qed

lemma pair_sums_scale:
  "map (\<lambda>(a, b). a + b) (zip (tl (map (\<lambda>y. y / c) ys)) (butlast (map (\<lambda>y. y / (c::real)) ys)))
     = map (\<lambda>v. v / c) (map (\<lambda>(a, b). a + b) (zip (tl ys) (butlast ys)))"
  by (simp add: map_tl [symmetric] map_butlast [symmetric] zip_map_map add_divide_distrib
      split_def)

lemma sum_list_scale: "sum_list (map (\<lambda>p. p / c) ps) = sum_list ps / (c::real)"
  by (induction ps) (simp_all add: add_divide_distrib)

lemma trapz1_scale:
  assumes "trapz1 xs ys = Inr v"
  shows "trapz1 xs (map (\<lambda>y. y / c) ys) = Inr (v / c)"
proof -
  from assms obtain ps where
    ps: "bcast2 (\<lambda>d v. d * v / 2) (diff xs) (map (\<lambda>(a, b). a + b) (zip (tl ys) (butlast ys))) = Inr ps"
    and v: "v = sum_list ps"
    by (auto simp: trapz1_def bindE_def split: sum.splits)
  show ?thesis
    unfolding trapz1_def pair_sums_scale bcast2_scale [OF ps]
    by (simp add: bindE_def v sum_list_scale)
qed

lemma rows_scale:
  "sequenceE (map (trapz1 xs) rows) = Inr vs \<Longrightarrow> list_all (\<lambda>v. v \<noteq> 0) vs \<Longrightarrow>
   sequenceE (map (trapz1 xs) (map (\<lambda>(r, v). map (\<lambda>y. y / v) r) (zip rows vs)))
     = Inr (map (\<lambda>_. 1) vs)"
proof (induction rows arbitrary: vs)
  case Nil
  then show ?case by simp
next
  case (Cons r rows)
  then obtain v vs' where vs: "vs = v # vs'" and r: "trapz1 xs r = Inr v"
    and rest: "sequenceE (map (trapz1 xs) rows) = Inr vs'"
    by (auto simp: bindE_def split: sum.splits)
  from Cons.prems(2) vs have nz: "v \<noteq> 0" and nzs: "list_all (\<lambda>v. v \<noteq> 0) vs'"
    by simp_all
  show ?case
    using Cons.IH [OF rest nzs] trapz1_scale [OF r, of v] nz
    by (simp add: vs bindE_def)
qed

lemma column_scale:
  assumes "\<forall>r\<in>set rows. length r = length vs" and "j < length vs"
  shows "column j (map (\<lambda>r. map (\<lambda>(y, v). y / v) (zip r vs)) rows)
           = map (\<lambda>y. y / vs ! j) (column j rows)"
  using assms by (simp add: column_def)

lemma ncols_scale:
  assumes "\<forall>r\<in>set rows. length r = length vs"
  shows "ncols (map (\<lambda>r. map (\<lambda>(y, v). y / v) (zip r vs)) rows) = ncols rows"
  using assms by (cases rows) (simp_all add: ncols_def)

lemma columns_scale:
  assumes seq: "sequenceE (map (\<lambda>j. trapz1 xs (column j rows)) [0 ..< ncols rows]) = Inr vs"
    and nz: "list_all (\<lambda>v. v \<noteq> 0) vs"
    and rect: "list_all (\<lambda>r. length r = ncols rows) rows"
  shows "sequenceE (map (\<lambda>j. trapz1 xs (column j (map (\<lambda>r. map (\<lambda>(y, v). y / v) (zip r vs)) rows)))
            [0 ..< ncols (map (\<lambda>r. map (\<lambda>(y, v). y / v) (zip r vs)) rows)])
         = Inr (map (\<lambda>_. 1) vs)"
proof -
  have len: "length vs = ncols rows"
    using sequenceE_length [OF seq] by simp
  have rl: "\<forall>r\<in>set rows. length r = length vs"
    using rect by (simp add: list_all_iff len)
  have one: "trapz1 xs (column j (map (\<lambda>r. map (\<lambda>(y, v). y / v) (zip r vs)) rows)) = Inr 1"
    if "j \<in> set [0 ..< ncols rows]" for j
  proof -
    from that have j: "j < length vs"
      by (simp add: len)
    have t: "trapz1 xs (column j rows) = Inr (vs ! j)"
      using sequenceE_nth [OF seq, of j] j by (simp add: len)
    have "vs ! j \<noteq> 0"
      using nz j by (simp add: list_all_length)
    then show ?thesis
      using trapz1_scale [OF t, of "vs ! j"] by (simp add: column_scale [OF rl j])
  qed
  have "sequenceE (map (\<lambda>j. trapz1 xs (column j (map (\<lambda>r. map (\<lambda>(y, v). y / v) (zip r vs)) rows)))
            [0 ..< ncols rows]) = Inr (map (\<lambda>_. 1) [0 ..< ncols rows])"
    by (rule sequenceE_map_Inr) (rule one)
  then show ?thesis
    by (simp add: ncols_scale [OF rl] map_replicate_const len)
qed

text \<open>
  C7. Let the integral of a signal along its domain axis be defined and other than zero
  for every channel (the rows of rank-2 values having one length). Then
  \<open>normalized_signal\<close> is the signal divided by its integral, channel by channel, and
  the integral of the normalised signal is 1 for every channel.
\<close>

theorem normalized_signal_integral:
  assumes "integral s = Inr (i, u)" and "nonzero i" and "rectangular (svalues s)"
  shows "\<exists>s'. normalized_signal s = Inr s'
            \<and> divide_broadcast (svalues s) i (other_axis s) = Inr (svalues s')
            \<and> integral s' = Inr (map_nd (\<lambda>_. 1) i, UMul (UDiv (sunits s) u) (dunits (sdomain s)))"
proof (cases "svalues s")
  case (A0 v)
  with assms(1) show ?thesis
    by (simp add: integral_def bindE_def)
next
  case (A1 ys)
  with assms(1) obtain v where ax: "domain_axis s = 0" and i: "i = A0 v"
    and t: "trapz1 (dmagnitude (sdomain s)) ys = Inr v"
    by (auto simp: integral_def bindE_def split: if_splits sum.splits)
  from assms(2) i have "v \<noteq> 0"
    by simp
  then show ?thesis
    using trapz1_scale [OF t, of v] assms(1)
    by (simp add: normalized_signal_def integral_def bindE_def A1 i ax other_axis_def)
next
  case (A2 rows)
  show ?thesis
  proof (cases "domain_axis s = 0")
    case True
    with assms(1) A2 obtain vs where i: "i = A1 vs"
      and seq: "sequenceE (map (\<lambda>j. trapz1 (dmagnitude (sdomain s)) (column j rows))
                  [0 ..< ncols rows]) = Inr vs"
      by (auto simp: integral_def bindE_def split: sum.splits)
    from assms(2) i have nz: "list_all (\<lambda>v. v \<noteq> 0) vs"
      by simp
    from assms(3) A2 have rect: "list_all (\<lambda>r. length r = ncols rows) rows"
      by simp
    have len: "length vs = ncols rows"
      using sequenceE_length [OF seq] by simp
    show ?thesis
      using columns_scale [OF seq nz rect] assms(1) rect
      by (simp add: normalized_signal_def integral_def bindE_def A2 i True other_axis_def len)
  next
    case False
    with assms(1) A2 obtain vs where i: "i = A1 vs" and ax: "domain_axis s = 1"
      and seq: "sequenceE (map (trapz1 (dmagnitude (sdomain s))) rows) = Inr vs"
      by (auto simp: integral_def bindE_def split: sum.splits if_splits)
    from assms(2) i have nz: "list_all (\<lambda>v. v \<noteq> 0) vs"
      by simp
    have len: "length vs = length rows"
      using sequenceE_length [OF seq] by simp
    show ?thesis
      using rows_scale [OF seq nz] assms(1)
      by (simp add: normalized_signal_def integral_def bindE_def A2 i ax other_axis_def len)
  qed
qed

theorem normalized_signal_integral_witness:
  "integral sig1 = Inr (A0 40, UMul (UName ''volt'') (UName ''nm''))
   \<and> (\<exists>s'. normalized_signal sig1 = Inr s'
         \<and> svalues s' = A1 [1/4, 1/2, 3/4]
         \<and> integral s' = Inr (A0 1, UMul (UDiv (UName ''volt'') (UMul (UName ''volt'') (UName ''nm'')))
                                 (UName ''nm'')))"
proof -
  have i: "integral sig1 = Inr (A0 40, UMul (UName ''volt'') (UName ''nm''))"
    by (simp add: integral_def sig1_def trapz1_def bcast2_def diff_def bindE_def)
  have n: "nonzero (A0 40)"
    by simp
  have r: "rectangular (svalues sig1)"
    by (simp add: sig1_def)
  show ?thesis
    using normalized_signal_integral [OF i n r] i
    by (auto simp: sig1_def other_axis_def)
qed

section \<open>Unsorted labels of a MeasuredSpectrum\<close>

lemma init_labels_unsorted_general:
  "ndim (svalues s) = 2 \<Longrightarrow> slabels s = LNumbers ls \<Longrightarrow> \<not> diff_all_one (argsort ls) \<Longrightarrow>
   init_labels conv s u = Inl DreyeError"
  by (cases "svalues s")
     (simp_all add: init_labels_def label_domain_def take_along_axis_def bindE_def Let_def)

text \<open>
  C9. A MeasuredSpectrum with two channels and the generic labels 5, 3: the labels are
  not ascending, so the values are to be reordered with \<open>take_along_axis\<close>. The index
  array has rank 1 and the values rank 2, the reordering raises, and the construction
  ends with DreyeError: no spectrum with sorted labels and reordered values comes out.
  With the labels 3, 5 the construction goes through, the values and the clip bounds
  being as supplied.
\<close>

theorem init_labels_unsorted:
  "init_labels conv spectrum_unsorted (Some (UName ''volt'')) = Inl DreyeError
   \<and> init_labels conv (spectrum_unsorted\<lparr>slabels := LNumbers [3, 5]\<rparr>) (Some (UName ''volt''))
       = Inr (spectrum_unsorted\<lparr>slabels := LDomain \<lparr>dmagnitude = [3, 5], dunits = UName ''volt''\<rparr>\<rparr>)"
  by (simp add: init_labels_def spectrum_unsorted_def label_domain_def take_along_axis_def
      bindE_def Let_def argsort_def diff_all_one_def)

section \<open>Resampling a signal onto its own domain\<close>

lemma searchsorted_knot:
  assumes "sorted_wrt (<) xs" and "i < length xs"
  shows "searchsorted xs (xs ! i) = i"
proof -
  have lt: "\<forall>x\<in>set (take i xs). x < xs ! i"
  proof
    fix x assume "x \<in> set (take i xs)"
    then obtain k where "k < i" and "x = xs ! k"
      using assms(2) by (auto simp: in_set_conv_nth)
    then show "x < xs ! i"
      using assms by (simp add: sorted_wrt_iff_nth_less)
  qed
  have ge: "\<forall>x\<in>set (drop i xs). \<not> x < xs ! i"
  proof
    fix x assume "x \<in> set (drop i xs)"
    then obtain k where "k < length (drop i xs)" and "x = drop i xs ! k"
      by (metis in_set_conv_nth)
    then have k: "i + k < length xs" and x: "x = xs ! (i + k)"
      using assms(2) by simp_all
    have "xs ! i \<le> xs ! (i + k)"
    proof (cases "k = 0")
      case True
      then show ?thesis by simp
    next
      case False
      then have "xs ! i < xs ! (i + k)"
        using assms(1) k by (simp add: sorted_wrt_iff_nth_less)
      then show ?thesis by simp
    qed
    then show "\<not> x < xs ! i"
      by (simp add: x)
  qed
  have "filter (\<lambda>x. x < xs ! i) xs
          = filter (\<lambda>x. x < xs ! i) (take i xs) @ filter (\<lambda>x. x < xs ! i) (drop i xs)"
    by (metis append_take_drop_id filter_append)
  also have "\<dots> = take i xs"
    using lt ge by (simp add: filter_id_conv filter_empty_conv)
  finally show ?thesis
    using assms(2) by (simp add: searchsorted_def)
qed

lemma lin_at_knot:
  assumes "sorted_wrt (<) xs" and "2 \<le> length xs" and "i < length xs"
  shows "lin_at xs ys (xs ! i) = ys ! i"
proof (cases "i = 0")
  case True
  then show ?thesis
    using assms by (simp add: lin_at_def searchsorted_knot Let_def)
next
  case False
  then have "xs ! (i - 1) < xs ! i"
    using assms by (simp add: sorted_wrt_iff_nth_less)
  moreover have "min (max i 1) (length xs - 1) = i"
    using False assms(3) by simp
  ultimately show ?thesis
    using assms by (simp add: lin_at_def searchsorted_knot Let_def)
qed

lemma map_lin_at_self:
  assumes "sorted_wrt (<) xs" and "2 \<le> length xs" and "length ys = length xs"
  shows "map (lin_at xs ys) xs = ys"
  using assms by (auto intro!: nth_equalityI simp: lin_at_knot)

lemma in_range_self:
  assumes "sorted_wrt (<) xs" and "xs \<noteq> []"
  shows "in_range xs (Coords xs)"
proof -
  have "hd xs \<le> v \<and> v \<le> last xs" if "v \<in> set xs" for v
  proof -
    from that obtain k where k: "k < length xs" and v: "v = xs ! k"
      by (auto simp: in_set_conv_nth)
    have "xs ! 0 \<le> xs ! k"
      using assms(1) k by (cases "k = 0") (auto simp: sorted_wrt_iff_nth_less less_imp_le)
    moreover have "xs ! k \<le> xs ! (length xs - 1)"
      using assms(1) k
      by (cases "k = length xs - 1") (auto simp: sorted_wrt_iff_nth_less less_imp_le)
    ultimately show ?thesis
      using assms(2) by (simp add: v hd_conv_nth last_conv_nth)
  qed
  then show ?thesis
    by (simp add: in_range_def list_all_iff)
qed

lemma lin_eval_self:
  assumes "sorted_wrt (<) xs" and "2 \<le> length xs" and "axis_ok xs vals a"
    and "rectangular vals"
  shows "lin_eval xs vals a (Coords xs) = vals"
proof (cases vals)
  case (A0 v)
  with assms(3) show ?thesis by simp
next
  case (A1 ys)
  with assms show ?thesis
    by (simp add: map_lin_at_self)
next
  case (A2 rows)
  show ?thesis
  proof (cases "a = 0")
    case True
    with assms(3) A2 have len: "length rows = length xs"
      by simp
    from assms(4) A2 have rect: "\<forall>r\<in>set rows. length r = ncols rows"
      by (simp add: list_all_iff)
    have "map (\<lambda>q. map (\<lambda>j. lin_at xs (column j rows) q) [0 ..< ncols rows]) xs = rows"
    proof (rule nth_equalityI)
      show "length (map (\<lambda>q. map (\<lambda>j. lin_at xs (column j rows) q) [0 ..< ncols rows]) xs)
              = length rows"
        by (simp add: len)
    next
      fix i
      assume "i < length (map (\<lambda>q. map (\<lambda>j. lin_at xs (column j rows) q) [0 ..< ncols rows]) xs)"
      then have i: "i < length xs"
        by simp
      then have ri: "length (rows ! i) = ncols rows"
        using rect len by simp
      have "map (\<lambda>j. lin_at xs (column j rows) (xs ! i)) [0 ..< ncols rows]
              = map (\<lambda>j. column j rows ! i) [0 ..< ncols rows]"
        using assms(1,2) i by (simp add: lin_at_knot)
      also have "\<dots> = rows ! i"
        using i len ri by (auto intro!: nth_equalityI simp: column_def)
      finally show "map (\<lambda>q. map (\<lambda>j. lin_at xs (column j rows) q) [0 ..< ncols rows]) xs ! i
                      = rows ! i"
        using i by simp
    qed
    then show ?thesis
      by (simp add: A2 True)
  next
    case False
    with assms(3) A2 have "\<forall>r\<in>set rows. length r = length xs"
      by (simp add: list_all_iff)
    then have "map (\<lambda>r. map (lin_at xs r) xs) rows = rows"
      using assms(1,2) by (simp add: map_lin_at_self map_idI)
    then show ?thesis
      by (simp add: A2 False)
  qed
qed

lemma check_domain_range_own:
  assumes "dmagnitude (sdomain s) \<noteq> []"
    and "case domain_min s of None \<Rightarrow> True
         | Some (m, mu) \<Rightarrow> mu = dunits (sdomain s) \<and> dstart (sdomain s) \<le> m"
    and "case domain_max s of None \<Rightarrow> True
         | Some (m, mu) \<Rightarrow> mu = dunits (sdomain s) \<and> m \<le> dend (sdomain s)"
  shows "check_domain_range conv s (Coords (dmagnitude (sdomain s))) (dunits (sdomain s)) = None"
proof -
  let ?xs = "dmagnitude (sdomain s)"
  obtain mn where mn: "np_min ?xs = Inr mn" and lo: "mn \<le> hd ?xs"
    using assms(1) by (simp add: np_min_Min)
  obtain mx where mx: "np_max ?xs = Inr mx" and hi: "last ?xs \<le> mx"
    using assms(1) by (simp add: np_max_Max)
  show ?thesis
    using assms(2,3) lo hi
    by (auto simp: check_domain_range_def to_units_def bindE_def mn mx
        dstart_def dend_def split: option.splits)
qed

lemma shape_domain_axis:
  assumes "axis_ok xs vals (int a)" and "2 \<le> length xs"
  shows "a < length (shape vals) \<and> shape vals ! a \<noteq> 1"
proof (cases vals)
  case (A0 v)
  with assms show ?thesis by simp
next
  case (A1 ys)
  with assms show ?thesis by auto
next
  case (A2 rows)
  show ?thesis
  proof (cases rows)
    case Nil
    with assms A2 show ?thesis by (auto simp: ncols_def)
  next
    case (Cons r rs)
    with assms A2 show ?thesis by (auto simp: ncols_def)
  qed
qed

lemma interpolate_linear_fresh:
  assumes "interpolator s = interp1d_linear" and "interpolate_cache s = None"
    and "2 \<le> length (dmagnitude (sdomain s))"
    and "axis_ok (dmagnitude (sdomain s)) (svalues s) (int (domain_axis s))"
  shows "\<exists>f s1. interpolate s = (Inr f, s1)
           \<and> (\<forall>q. f q = bindE (if in_range (dmagnitude (sdomain s)) q
                                then Inr (lin_eval (dmagnitude (sdomain s)) (svalues s)
                                            (int (domain_axis s)) q)
                                else Inl ValueError)
                         (\<lambda>v. clip_values v (signal_min s) (signal_max s)))"
  using assms
  by (simp add: interpolate_def get_interpolator_kwargs_def interp1d_linear_def Let_def
      update_conv')

text \<open>
  C6, as the code has it. Let a signal have the linear interpolator and no interpolant
  cached, at least two strictly ascending domain coordinates, values that fit the domain
  along the domain axis, and clip bounds that leave the values as they are; let
  \<open>domain_min\<close>, where configured, be no less than the first coordinate and
  \<open>domain_max\<close>, where configured, no greater than the last. Then the call of the
  signal on its own domain returns a new Signal that is equal to the signal.
\<close>

theorem resample_own_domain:
  assumes "interpolator s = interp1d_linear" and "interpolate_cache s = None"
    and "sorted_wrt (<) (dmagnitude (sdomain s))" and "2 \<le> length (dmagnitude (sdomain s))"
    and "axis_ok (dmagnitude (sdomain s)) (svalues s) (int (domain_axis s))"
    and "rectangular (svalues s)"
    and "clip_values (svalues s) (signal_min s) (signal_max s) = Inr (svalues s)"
    and "case domain_min s of None \<Rightarrow> True
         | Some (m, mu) \<Rightarrow> mu = dunits (sdomain s) \<and> dstart (sdomain s) \<le> m"
    and "case domain_max s of None \<Rightarrow> True
         | Some (m, mu) \<Rightarrow> mu = dunits (sdomain s) \<and> m \<le> dend (sdomain s)"
  shows "\<exists>r s1. call conv s (QDomain (sdomain s)) = (Inr (NewSignal r), s1) \<and> signal_eq r s"
proof -
  let ?xs = "dmagnitude (sdomain s)"
  have ne: "?xs \<noteq> []"
    using assms(4) by auto
  have req: "request conv s (QDomain (sdomain s)) = Inr (Coords ?xs, dunits (sdomain s))"
    by (simp add: request_def to_units_def bindE_def)
  note chk = check_domain_range_own [OF ne assms(8,9), of conv]
  from interpolate_linear_fresh [OF assms(1,2,4,5)] obtain f s1 where
    i: "interpolate s = (Inr f, s1)"
    and f: "\<And>q. f q = bindE (if in_range ?xs q
                              then Inr (lin_eval ?xs (svalues s) (int (domain_axis s)) q)
                              else Inl ValueError)
                         (\<lambda>v. clip_values v (signal_min s) (signal_max s))"
    by blast
  have fx: "f (Coords ?xs) = Inr (svalues s)"
    by (simp add: f in_range_self [OF assms(3) ne] lin_eval_self [OF assms(3,4,5,6)]
        bindE_def assms(7))
  note k = interpolate_keeps [OF i]
  note sh = shape_domain_axis [OF assms(5,4)]
  have dc: "domain_class conv (Coords ?xs) (dunits (sdomain s)) (dunits (sdomain s))
              = Inr (sdomain s)"
    by (simp add: domain_class_def to_units_def bindE_def)
  have "call conv s (QDomain (sdomain s))
          = (Inr (NewSignal (s1\<lparr>svalues := svalues s, sdomain := sdomain s\<rparr>)), s1)"
    using sh by (simp add: call_def req chk i fx k dc)
  moreover have "signal_eq (s1\<lparr>svalues := svalues s, sdomain := sdomain s\<rparr>) s"
    using i by (auto simp: signal_eq_def k interpolate_def get_interpolator_kwargs_def
        Let_def assms(2) split: sum.splits)
  ultimately show ?thesis
    by blast
qed

theorem resample_own_domain_witness:
  "\<exists>r s1. call no_conv sig1 (QDomain (sdomain sig1)) = (Inr (NewSignal r), s1) \<and> signal_eq r sig1"
proof -
  have "sorted_wrt (<) (dmagnitude (sdomain sig1))"
    and "clip_values (svalues sig1) (signal_min sig1) (signal_max sig1) = Inr (svalues sig1)"
    by (simp_all add: sig1_def clip_values_def)
  then show ?thesis
    by (intro resample_own_domain) (simp_all add: sig1_def)
qed

text \<open>
  C6, as the claim has it, fails: a signal over the coordinates 1, 2, 3 with
  \<open>domain_min = 0\<close> refuses its own domain with the domain error, since its lowest
  coordinate lies above \<open>domain_min\<close>.
\<close>

theorem resample_own_domain_refused:
  "call no_conv sig_bounded (QDomain (sdomain sig_bounded)) = (Inl DreyeError, sig_bounded)"
  by (simp add: call_def request_def check_domain_range_def sig_bounded_def sig1_def
      to_units_def bindE_def np_min_def np_max_def)

end
